theory Spec2Isabelle
  imports Complex_Main "HOL-Library.Sublist" "HOL-Library.Multiset"
begin

section \<open>Data model\<close>

text \<open>
  Object ids and user ids are natural numbers; a \<open>Date\<close> is its \<open>getTime()\<close> value, the
  integer number of milliseconds since the epoch. A field that may be \<open>undefined\<close> or
  \<open>null\<close> is an option. A string is the sequence of the bytes of its UTF-8 encoding.
\<close>

type_synonym objectId = nat
type_synonym date = int

text \<open>
  A document of \<open>bookSchema\<close> (models/Book.js). The status is kept as the string that is
  stored: \<open>updateStats\<close> switches on it with a silent default.
  The purchase, location, series, language and format fields are left out: no route
  below reads or derives them.
\<close>

record book =
  bid :: objectId
  title :: string
  author :: string
  genre :: "string option"
  status :: string
  description :: "string option"
  isbn :: "string option"
  publishedDate :: "string option"
  pageCount :: "int option"
  rating :: "int option"
  book_notes :: "string option"
  coverImage :: "string option"
  user :: objectId
  tags :: "string list"
  dateStarted :: "date option"
  dateFinished :: "date option"
  readingDuration :: "int option"
  createdAt :: date

text \<open>The denormalised \<open>stats\<close> sub-document of \<open>userSchema\<close> (models/User.js).\<close>

record stats =
  totalBooks :: nat
  booksRead :: nat
  currentlyReading :: nat
  toRead :: nat

record user_doc =
  uid :: objectId
  ustats :: stats

text \<open>
  The world a request runs in: the two collections and the names of the files in the
  uploads directory.
\<close>

record world =
  books :: "book list"
  users :: "user_doc list"
  files :: "string set"

text \<open>
  What a request gets from its environment: the clock (\<open>new Date()\<close>), the \<open>_id\<close> the
  store gives a new document, whether the store refuses the write (\<open>save\<close> or
  \<open>findOneAndUpdate\<close> throwing something that is not a validation error), and whether
  the statistics update throws inside the post hook.
\<close>

record env =
  now :: date
  newId :: objectId
  write_fails :: bool
  stats_fails :: bool

section \<open>The pre-save hook of the book schema\<close>

text \<open>
  \<open>Math.ceil(timeDiff / (1000 * 3600 * 24))\<close>. The time difference is an integer number
  of milliseconds, and for differences of two dates of which one is the current time the
  double-precision quotient rounds to the same integer as the exact quotient, so the
  result is the integer ceiling of the exact quotient.
\<close>

definition msPerDay :: int where
  "msPerDay = 1000 * 3600 * 24"

definition ceil_days :: "int \<Rightarrow> int" where
  "ceil_days timeDiff = - ((- timeDiff) div msPerDay)"

text \<open>
  \<open>bookSchema.pre('save', ...)\<close>. The flag is \<open>this.isModified('status')\<close>. A date
  field is falsy exactly when it is unset.
\<close>

definition pre_save :: "date \<Rightarrow> bool \<Rightarrow> book \<Rightarrow> book" where
  "pre_save nw status_modified this =
     (if status_modified then
        let this1 = (if status this = ''Reading'' \<and> dateStarted this = None
                     then this\<lparr>dateStarted := Some nw\<rparr> else this)
        in if status this1 = ''Read'' \<and> dateFinished this1 = None
           then let this2 = this1\<lparr>dateFinished := Some nw\<rparr>
                in (case dateStarted this2 of
                      Some started \<Rightarrow> this2\<lparr>readingDuration := Some (ceil_days (nw - started))\<rparr>
                    | None \<Rightarrow> this2)
           else this1
      else this)"

section \<open>The statistics snapshot of a user\<close>

text \<open>
  The aggregation of \<open>updateStats\<close> (models/User.js): \<open>$match\<close> the user's books,
  \<open>$group\<close> them by status with \<open>count: { $sum: 1 }\<close>. One group per status that
  occurs, here in the order of first occurrence.
\<close>

definition aggregate_by_status :: "book list \<Rightarrow> objectId \<Rightarrow> (string \<times> nat) list" where
  "aggregate_by_status bs u =
     (let ss = map status (filter (\<lambda>b. user b = u) bs)
      in map (\<lambda>s. (s, count_list ss s)) (remdups ss))"

definition reset_stats :: stats where
  "reset_stats = \<lparr>totalBooks = 0, booksRead = 0, currentlyReading = 0, toRead = 0\<rparr>"

text \<open>The body of \<open>stats.forEach\<close>: add to the total, then the \<open>switch\<close> on \<open>stat._id\<close>.\<close>

definition apply_stat :: "stats \<Rightarrow> string \<times> nat \<Rightarrow> stats" where
  "apply_stat st stat =
     (let st1 = st\<lparr>totalBooks := totalBooks st + snd stat\<rparr>
      in if fst stat = ''Read'' then st1\<lparr>booksRead := snd stat\<rparr>
         else if fst stat = ''Reading'' then st1\<lparr>currentlyReading := snd stat\<rparr>
         else if fst stat = ''To Read'' then st1\<lparr>toRead := snd stat\<rparr>
         else st1)"

definition stats_of_groups :: "(string \<times> nat) list \<Rightarrow> stats" where
  "stats_of_groups groups = foldl apply_stat reset_stats groups"

text \<open>
  \<open>userSchema.methods.updateStats\<close>: the four counters of the user document are reset
  and rebuilt from the aggregation, and the document is saved.
\<close>

definition updateStats :: "world \<Rightarrow> objectId \<Rightarrow> world" where
  "updateStats w u =
     w\<lparr>users := map (\<lambda>usr. if uid usr = u
                             then usr\<lparr>ustats := stats_of_groups (aggregate_by_status (books w) u)\<rparr>
                             else usr) (users w)\<rparr>"

section \<open>Middleware registered on the book schema\<close>

text \<open>
  \<open>bookSchema.post('save', ...)\<close>: look the owner up, and if there is one, update its
  statistics. Whatever is thrown inside is caught and logged, so the world stays as the
  write left it.
\<close>

definition post_save :: "env \<Rightarrow> book \<Rightarrow> world \<Rightarrow> world" where
  "post_save e doc w =
     (if stats_fails e then w
      else if \<exists>usr \<in> set (users w). uid usr = user doc then updateStats w (user doc)
      else w)"

text \<open>\<open>bookSchema.post('findOneAndDelete', ...)\<close>: the same, guarded by \<open>if (doc)\<close>.\<close>

definition post_findOneAndDelete :: "env \<Rightarrow> book option \<Rightarrow> world \<Rightarrow> world" where
  "post_findOneAndDelete e doc w =
     (case doc of None \<Rightarrow> w | Some d \<Rightarrow> post_save e d w)"

text \<open>
  The store runs, for an operation, the middleware registered under that operation's
  name. The schema registers a pre hook for \<open>save\<close>, a post hook for \<open>save\<close> and a post
  hook for \<open>findOneAndDelete\<close>; nothing is registered for \<open>findOneAndUpdate\<close>.
\<close>

datatype hook_event = OnSave | OnFindOneAndUpdate | OnFindOneAndDelete

definition bookSchema_pre :: "hook_event \<Rightarrow> date \<Rightarrow> bool \<Rightarrow> book \<Rightarrow> book" where
  "bookSchema_pre ev nw status_modified doc =
     (case ev of OnSave \<Rightarrow> pre_save nw status_modified doc
               | OnFindOneAndUpdate \<Rightarrow> doc
               | OnFindOneAndDelete \<Rightarrow> doc)"

definition bookSchema_post :: "hook_event \<Rightarrow> env \<Rightarrow> book option \<Rightarrow> world \<Rightarrow> world" where
  "bookSchema_post ev e doc w =
     (case ev of OnSave \<Rightarrow> (case doc of Some d \<Rightarrow> post_save e d w | None \<Rightarrow> w)
               | OnFindOneAndUpdate \<Rightarrow> w
               | OnFindOneAndDelete \<Rightarrow> post_findOneAndDelete e doc w)"

section \<open>Submitted fields and the validation layer\<close>

text \<open>
  A numeric field of a request body after conversion: \<open>null\<close>, an integer, or a value
  that is not a number. Non-integer numbers are not represented.
\<close>

datatype numfield = NNull | NInt int | NBad

text \<open>
  The keys of \<open>req.body\<close> that the routes or the schema look at; \<open>None\<close> is an absent
  key. The last three are keys of the book schema that the validation schema does not
  know.
\<close>

record fields =
  f_title :: "string option"
  f_author :: "string option"
  f_genre :: "string option"
  f_status :: "string option"
  f_description :: "string option"
  f_isbn :: "string option"
  f_publishedDate :: "string option"
  f_pageCount :: "numfield option"
  f_rating :: "numfield option"
  f_notes :: "string option"
  f_tags :: "string list option"
  f_dateStarted :: "date option"
  f_dateFinished :: "date option"
  f_readingDuration :: "int option"

text \<open>
  \<open>.length\<close> of a string counts UTF-16 code units: one for every encoded character,
  and one more for a character of four bytes.
\<close>

definition is_continuation :: "char \<Rightarrow> bool" where
  "is_continuation c = (128 \<le> (of_char c :: nat) \<and> (of_char c :: nat) < 192)"

definition js_length :: "string \<Rightarrow> nat" where
  "js_length s =
     length (filter (\<lambda>c. \<not> is_continuation c) s) + length (filter (\<lambda>c. 240 \<le> (of_char c :: nat)) s)"

text \<open>
  The characters \<open>String.prototype.trim\<close> removes, each as its encoding: tab, line feed,
  vertical tab, form feed, carriage return, space, U+00A0, U+1680, U+2000 to U+200A,
  U+2028, U+2029, U+202F, U+205F, U+3000 and U+FEFF.
\<close>

definition white_space :: "string list" where
  "white_space =
     [[CHR 0x09], [CHR 0x0A], [CHR 0x0B], [CHR 0x0C], [CHR 0x0D], [CHR 0x20],
      [CHR 0xC2, CHR 0xA0], [CHR 0xE1, CHR 0x9A, CHR 0x80],
      [CHR 0xE2, CHR 0x80, CHR 0x80], [CHR 0xE2, CHR 0x80, CHR 0x81], [CHR 0xE2, CHR 0x80, CHR 0x82],
      [CHR 0xE2, CHR 0x80, CHR 0x83], [CHR 0xE2, CHR 0x80, CHR 0x84], [CHR 0xE2, CHR 0x80, CHR 0x85],
      [CHR 0xE2, CHR 0x80, CHR 0x86], [CHR 0xE2, CHR 0x80, CHR 0x87], [CHR 0xE2, CHR 0x80, CHR 0x88],
      [CHR 0xE2, CHR 0x80, CHR 0x89], [CHR 0xE2, CHR 0x80, CHR 0x8A],
      [CHR 0xE2, CHR 0x80, CHR 0xA8], [CHR 0xE2, CHR 0x80, CHR 0xA9], [CHR 0xE2, CHR 0x80, CHR 0xAF],
      [CHR 0xE2, CHR 0x81, CHR 0x9F], [CHR 0xE3, CHR 0x80, CHR 0x80], [CHR 0xEF, CHR 0xBB, CHR 0xBF]]"

text \<open>
  Removing the white space at the start of a string, one character at a time; the first
  argument bounds the number of steps and the length of the string is enough.
\<close>

fun strip_start :: "nat \<Rightarrow> string list \<Rightarrow> string \<Rightarrow> string" where
  "strip_start 0 ws s = s"
| "strip_start (Suc n) ws s =
     (case find (\<lambda>p. prefix p s) ws of
        Some p \<Rightarrow> strip_start n ws (drop (length p) s)
      | None \<Rightarrow> s)"

definition trimStart :: "string \<Rightarrow> string" where
  "trimStart s = strip_start (length s) white_space s"

text \<open>\<open>String.prototype.trim\<close>: the end is trimmed as the start of the reversed string.\<close>

definition trim :: "string \<Rightarrow> string" where
  "trim s = rev (strip_start (length s) (map rev white_space) (rev (trimStart s)))"

definition status_values :: "string list" where
  "status_values = [''To Read'', ''Reading'', ''Read'']"

text \<open>A validation failure of the request body: the key and the rule that failed.\<close>

datatype joi_error = JoiError string string

text \<open>\<open>Joi.string().trim().min(1).max(n).required()\<close>\<close>

definition joi_required_string :: "string \<Rightarrow> nat \<Rightarrow> string option \<Rightarrow> joi_error + string option" where
  "joi_required_string key n v =
     (case v of
        None \<Rightarrow> Inl (JoiError key ''any.required'')
      | Some s \<Rightarrow>
          let t = trim s
          in if t = [] then Inl (JoiError key ''string.empty'')
             else if js_length t > n then Inl (JoiError key ''string.max'')
             else Inr (Some t))"

text \<open>\<open>Joi.string().trim().max(n).allow('')\<close>\<close>

definition joi_optional_string :: "string \<Rightarrow> nat \<Rightarrow> string option \<Rightarrow> joi_error + string option" where
  "joi_optional_string key n v =
     (case v of
        None \<Rightarrow> Inr None
      | Some s \<Rightarrow>
          let t = trim s
          in if t = [] then Inr (Some t)
             else if js_length t > n then Inl (JoiError key ''string.max'')
             else Inr (Some t))"

text \<open>\<open>Joi.string().valid('To Read', 'Reading', 'Read').default('To Read')\<close>\<close>

definition joi_status :: "string option \<Rightarrow> joi_error + string option" where
  "joi_status v =
     (case v of
        None \<Rightarrow> Inr (Some ''To Read'')
      | Some s \<Rightarrow> if s \<in> set status_values then Inr (Some s)
                  else Inl (JoiError ''status'' ''any.only''))"

text \<open>\<open>Joi.string().trim().pattern(/^[0-9-]{10,17}$/).allow('')\<close>\<close>

definition is_digit :: "char \<Rightarrow> bool" where
  "is_digit c = (c \<in> set ''0123456789'')"

definition joi_isbn :: "string option \<Rightarrow> joi_error + string option" where
  "joi_isbn v =
     (case v of
        None \<Rightarrow> Inr None
      | Some s \<Rightarrow>
          let t = trim s
          in if t = [] then Inr (Some t)
             else if 10 \<le> length t \<and> length t \<le> 17 \<and> (\<forall>c \<in> set t. is_digit c \<or> c = CHR ''-'')
                  then Inr (Some t)
             else Inl (JoiError ''isbn'' ''string.pattern.base''))"

text \<open>\<open>Joi.string().trim().allow('')\<close>\<close>

definition joi_publishedDate :: "string option \<Rightarrow> joi_error + string option" where
  "joi_publishedDate v = Inr (map_option trim v)"

text \<open>\<open>Joi.number().integer().min(lo).max(hi).allow(null)\<close>\<close>

definition joi_number :: "string \<Rightarrow> int \<Rightarrow> int \<Rightarrow> numfield option \<Rightarrow> joi_error + numfield option" where
  "joi_number key lo hi v =
     (case v of
        None \<Rightarrow> Inr None
      | Some NNull \<Rightarrow> Inr (Some NNull)
      | Some NBad \<Rightarrow> Inl (JoiError key ''number.base'')
      | Some (NInt n) \<Rightarrow>
          if n < lo then Inl (JoiError key ''number.min'')
          else if n > hi then Inl (JoiError key ''number.max'')
          else Inr (Some (NInt n)))"

text \<open>\<open>Joi.array().items(Joi.string().trim().max(30)).max(10)\<close>\<close>

definition joi_tags :: "string list option \<Rightarrow> joi_error + string list option" where
  "joi_tags v =
     (case v of
        None \<Rightarrow> Inr None
      | Some ts \<Rightarrow>
          let ts' = map trim ts
          in if \<exists>t \<in> set ts'. t = [] then Inl (JoiError ''tags'' ''string.empty'')
             else if \<exists>t \<in> set ts'. js_length t > 30 then Inl (JoiError ''tags'' ''string.max'')
             else if length ts' > 10 then Inl (JoiError ''tags'' ''array.max'')
             else Inr (Some ts'))"

definition bind_joi :: "joi_error + 'a \<Rightarrow> ('a \<Rightarrow> joi_error + 'b) \<Rightarrow> joi_error + 'b" where
  "bind_joi r k = (case r of Inl err \<Rightarrow> Inl err | Inr x \<Rightarrow> k x)"

text \<open>
  \<open>bookValidationSchema.validate(req.body, { allowUnknown: true, stripUnknown: true })\<close>
  (routes/books.js, the validating router): the keys are checked in the order of the
  schema and the first failure is the error; on success the value holds the converted
  known keys, and the keys the schema does not know are gone.
\<close>

definition bookValidationSchema :: "fields \<Rightarrow> joi_error + fields" where
  "bookValidationSchema body =
     bind_joi (joi_required_string ''title'' 200 (f_title body)) (\<lambda>ti.
     bind_joi (joi_required_string ''author'' 100 (f_author body)) (\<lambda>au.
     bind_joi (joi_optional_string ''genre'' 50 (f_genre body)) (\<lambda>ge.
     bind_joi (joi_status (f_status body)) (\<lambda>st.
     bind_joi (joi_optional_string ''description'' 2000 (f_description body)) (\<lambda>de.
     bind_joi (joi_isbn (f_isbn body)) (\<lambda>isb.
     bind_joi (joi_publishedDate (f_publishedDate body)) (\<lambda>pd.
     bind_joi (joi_number ''pageCount'' 1 50000 (f_pageCount body)) (\<lambda>pc.
     bind_joi (joi_number ''rating'' 1 5 (f_rating body)) (\<lambda>ra.
     bind_joi (joi_optional_string ''notes'' 1000 (f_notes body)) (\<lambda>no.
     bind_joi (joi_tags (f_tags body)) (\<lambda>tg.
       Inr \<lparr>f_title = ti, f_author = au, f_genre = ge, f_status = st, f_description = de,
            f_isbn = isb, f_publishedDate = pd, f_pageCount = pc, f_rating = ra,
            f_notes = no, f_tags = tg, f_dateStarted = None, f_dateFinished = None,
            f_readingDuration = None\<rparr>)))))))))))"

section \<open>Validators of the book schema\<close>

text \<open>
  The validators declared in \<open>bookSchema\<close>, with the messages of the source; the two cast
  failures and the \<open>min\<close> of \<open>readingDuration\<close> have messages generated by the store,
  shortened here. String setters (\<open>trim: true\<close>) run before the validators. For a new
  document a required path must be present; on an update only the paths that are set are
  checked.
\<close>

definition check_required :: "bool \<Rightarrow> string \<Rightarrow> nat \<Rightarrow> string \<Rightarrow> string option \<Rightarrow> string list" where
  "check_required is_new msg_required n msg_max v =
     (case v of
        None \<Rightarrow> if is_new then [msg_required] else []
      | Some s \<Rightarrow> if trim s = [] then [msg_required]
                  else if js_length (trim s) > n then [msg_max] else [])"

definition check_maxlength :: "nat \<Rightarrow> string \<Rightarrow> string option \<Rightarrow> string list" where
  "check_maxlength n msg v =
     (case v of None \<Rightarrow> [] | Some s \<Rightarrow> if js_length (trim s) > n then [msg] else [])"

definition check_status :: "string option \<Rightarrow> string list" where
  \<open>check_status v =
     (case v of
        None \<Rightarrow> []
      | Some s \<Rightarrow> if s = [] then [''Reading status is required'']
                  else if s \<notin> set status_values
                  then [''Status must be either "To Read", "Reading", or "Read"'']
                  else [])\<close>

text \<open>The \<open>isbn\<close> validator: empty passes; otherwise 10 or 13 digits once the hyphens are removed.\<close>

definition isbn_validator :: "string \<Rightarrow> bool" where
  "isbn_validator v =
     (if v = [] then True
      else let cleanISBN = filter (\<lambda>c. c \<noteq> CHR ''-'') v
           in (length cleanISBN = 10 \<or> length cleanISBN = 13) \<and> (\<forall>c \<in> set cleanISBN. is_digit c))"

definition check_isbn :: "string option \<Rightarrow> string list" where
  "check_isbn v =
     (case v of None \<Rightarrow> []
      | Some s \<Rightarrow> if isbn_validator (trim s) then [] else [''Please enter a valid ISBN-10 or ISBN-13''])"

definition check_number :: "string \<Rightarrow> int \<Rightarrow> string \<Rightarrow> int \<Rightarrow> string \<Rightarrow> numfield option \<Rightarrow> string list" where
  "check_number key lo msg_min hi msg_max v =
     (case v of
        None \<Rightarrow> []
      | Some NNull \<Rightarrow> []
      | Some NBad \<Rightarrow> [''Cast to Number failed at path '' @ key]
      | Some (NInt n) \<Rightarrow> if n < lo then [msg_min] else if n > hi then [msg_max] else [])"

definition check_tags :: "string list option \<Rightarrow> string list" where
  "check_tags v =
     (case v of None \<Rightarrow> []
      | Some ts \<Rightarrow> map (\<lambda>t. ''Tag cannot exceed 30 characters'') (filter (\<lambda>t. js_length (trim t) > 30) ts))"

definition check_readingDuration :: "int option \<Rightarrow> string list" where
  "check_readingDuration v =
     (case v of None \<Rightarrow> []
      | Some n \<Rightarrow> if n < 0 then [''Path readingDuration is less than minimum allowed value (0).''] else [])"

definition schema_errors :: "bool \<Rightarrow> fields \<Rightarrow> string list" where
  "schema_errors is_new v =
     check_required is_new ''Book title is required'' 200 ''Title cannot exceed 200 characters'' (f_title v)
     @ check_required is_new ''Author is required'' 100 ''Author name cannot exceed 100 characters'' (f_author v)
     @ check_maxlength 50 ''Genre cannot exceed 50 characters'' (f_genre v)
     @ check_status (f_status v)
     @ check_maxlength 2000 ''Description cannot exceed 2000 characters'' (f_description v)
     @ check_isbn (f_isbn v)
     @ check_number ''pageCount'' 1 ''Page count must be at least 1'' 50000 ''Page count cannot exceed 50,000'' (f_pageCount v)
     @ check_number ''rating'' 1 ''Rating must be between 1 and 5'' 5 ''Rating must be between 1 and 5'' (f_rating v)
     @ check_maxlength 1000 ''Notes cannot exceed 1000 characters'' (f_notes v)
     @ check_tags (f_tags v)
     @ check_readingDuration (f_readingDuration v)"

text \<open>What casting alone refuses, when an update runs without validators.\<close>

definition cast_errors :: "fields \<Rightarrow> string list" where
  "cast_errors v =
     (if f_pageCount v = Some NBad then [''Cast to Number failed at path pageCount''] else [])
     @ (if f_rating v = Some NBad then [''Cast to Number failed at path rating''] else [])"

section \<open>The book store\<close>

datatype store_error = ValidationError "string list" | OtherError

definition num_value :: "numfield option \<Rightarrow> int option" where
  "num_value v = (case v of Some (NInt n) \<Rightarrow> Some n | _ \<Rightarrow> None)"

text \<open>
  \<open>new Book({...})\<close>: the fields given, with the setters and the defaults of the schema
  (\<open>status\<close> defaults to \<open>'To Read'\<close>, \<open>coverImage\<close> to \<open>null\<close>). The \<open>_id\<close> and
  \<open>createdAt\<close> are those the environment gives this request.
\<close>

definition new_Book :: "env \<Rightarrow> fields \<Rightarrow> string option \<Rightarrow> objectId \<Rightarrow> book" where
  "new_Book e v cover owner =
     \<lparr>bid = newId e,
      title = (case f_title v of Some s \<Rightarrow> trim s | None \<Rightarrow> []),
      author = (case f_author v of Some s \<Rightarrow> trim s | None \<Rightarrow> []),
      genre = map_option trim (f_genre v),
      status = (case f_status v of Some s \<Rightarrow> s | None \<Rightarrow> ''To Read''),
      description = map_option trim (f_description v),
      isbn = map_option trim (f_isbn v),
      publishedDate = map_option trim (f_publishedDate v),
      pageCount = num_value (f_pageCount v),
      rating = num_value (f_rating v),
      book_notes = map_option trim (f_notes v),
      coverImage = cover,
      user = owner,
      tags = (case f_tags v of Some ts \<Rightarrow> map trim ts | None \<Rightarrow> []),
      dateStarted = f_dateStarted v,
      dateFinished = f_dateFinished v,
      readingDuration = f_readingDuration v,
      createdAt = now e\<rparr>"

text \<open>
  \<open>book.save()\<close> on a new document: the validators, then the pre hooks of \<open>save\<close>, then
  the insert, then the post hooks of \<open>save\<close>. The status counts as modified when it was
  given to the constructor.
\<close>

definition Book_save :: "env \<Rightarrow> fields \<Rightarrow> string option \<Rightarrow> objectId \<Rightarrow> world \<Rightarrow> store_error + (book \<times> world)" where
  "Book_save e v cover owner w =
     (let errs = schema_errors True v
      in if errs \<noteq> [] then Inl (ValidationError errs)
         else let doc = bookSchema_pre OnSave (now e) (f_status v \<noteq> None) (new_Book e v cover owner)
              in if write_fails e then Inl OtherError
                 else Inr (doc, bookSchema_post OnSave e (Some doc) (w\<lparr>books := books w @ [doc]\<rparr>)))"

text \<open>\<open>Book.findOne({ _id: id, user: u })\<close>\<close>

definition Book_findOne :: "world \<Rightarrow> objectId \<Rightarrow> objectId \<Rightarrow> book option" where
  "Book_findOne w i u = find (\<lambda>b. bid b = i \<and> user b = u) (books w)"

fun replace_first :: "('a \<Rightarrow> bool) \<Rightarrow> 'a \<Rightarrow> 'a list \<Rightarrow> 'a list" where
  "replace_first P y [] = []"
| "replace_first P y (x # xs) = (if P x then y # xs else x # replace_first P y xs)"

fun remove_first :: "('a \<Rightarrow> bool) \<Rightarrow> 'a list \<Rightarrow> 'a list" where
  "remove_first P [] = []"
| "remove_first P (x # xs) = (if P x then xs else x # remove_first P xs)"

text \<open>
  \<open>{ $set: updateData }\<close> on a stored book: a key that is absent (or \<open>undefined\<close>) is
  left as it is. The cover is \<open>None\<close> when the key is not in the update, \<open>Some None\<close> for
  \<open>null\<close>.
\<close>

definition apply_set :: "fields \<Rightarrow> string option option \<Rightarrow> book \<Rightarrow> book" where
  "apply_set upd cover old =
     old\<lparr>title := (case f_title upd of Some s \<Rightarrow> trim s | None \<Rightarrow> title old),
         author := (case f_author upd of Some s \<Rightarrow> trim s | None \<Rightarrow> author old),
         genre := (case f_genre upd of Some s \<Rightarrow> Some (trim s) | None \<Rightarrow> genre old),
         status := (case f_status upd of Some s \<Rightarrow> s | None \<Rightarrow> status old),
         description := (case f_description upd of Some s \<Rightarrow> Some (trim s) | None \<Rightarrow> description old),
         isbn := (case f_isbn upd of Some s \<Rightarrow> Some (trim s) | None \<Rightarrow> isbn old),
         publishedDate := (case f_publishedDate upd of Some s \<Rightarrow> Some (trim s) | None \<Rightarrow> publishedDate old),
         pageCount := (case f_pageCount upd of Some n \<Rightarrow> num_value (Some n) | None \<Rightarrow> pageCount old),
         rating := (case f_rating upd of Some n \<Rightarrow> num_value (Some n) | None \<Rightarrow> rating old),
         book_notes := (case f_notes upd of Some s \<Rightarrow> Some (trim s) | None \<Rightarrow> book_notes old),
         coverImage := (case cover of Some c \<Rightarrow> c | None \<Rightarrow> coverImage old),
         tags := (case f_tags upd of Some ts \<Rightarrow> map trim ts | None \<Rightarrow> tags old),
         dateStarted := (case f_dateStarted upd of Some d \<Rightarrow> Some d | None \<Rightarrow> dateStarted old),
         dateFinished := (case f_dateFinished upd of Some d \<Rightarrow> Some d | None \<Rightarrow> dateFinished old),
         readingDuration := (case f_readingDuration upd of Some d \<Rightarrow> Some d | None \<Rightarrow> readingDuration old)\<rparr>"

text \<open>
  \<open>Book.findOneAndUpdate({ _id: id, user: u }, { $set: ... }, { new: true, runValidators })\<close>:
  the update is cast (and validated when asked) before the query runs; the matching
  document is rewritten in place and returned; the middleware that runs is the one
  registered for \<open>findOneAndUpdate\<close>.
\<close>

definition Book_findOneAndUpdate ::
  "env \<Rightarrow> objectId \<Rightarrow> objectId \<Rightarrow> fields \<Rightarrow> string option option \<Rightarrow> bool \<Rightarrow> world
     \<Rightarrow> store_error + (book option \<times> world)" where
  "Book_findOneAndUpdate e i u upd cover runValidators w =
     (let errs = (if runValidators then schema_errors False upd else cast_errors upd)
      in if errs \<noteq> [] then Inl (ValidationError errs)
         else if write_fails e then Inl OtherError
         else (case Book_findOne w i u of
                 None \<Rightarrow> Inr (None, w)
               | Some old \<Rightarrow>
                   let doc = bookSchema_pre OnFindOneAndUpdate (now e) (f_status upd \<noteq> None)
                               (apply_set upd cover old);
                       w' = w\<lparr>books := replace_first (\<lambda>b. bid b = i \<and> user b = u) doc (books w)\<rparr>
                   in Inr (Some doc, bookSchema_post OnFindOneAndUpdate e (Some doc) w')))"

text \<open>\<open>Book.findOneAndDelete({ _id: id, user: u })\<close>, with the post hook of that name.\<close>

definition Book_findOneAndDelete :: "env \<Rightarrow> objectId \<Rightarrow> objectId \<Rightarrow> world \<Rightarrow> book option \<times> world" where
  "Book_findOneAndDelete e i u w =
     (let doc = Book_findOne w i u;
          w' = w\<lparr>books := remove_first (\<lambda>b. bid b = i \<and> user b = u) (books w)\<rparr>
      in (doc, bookSchema_post OnFindOneAndDelete e doc w'))"

section \<open>The upload middleware\<close>

text \<open>The file part of a multipart request, as the upload library sees it.\<close>

record upload_file =
  fieldname :: string
  originalname :: string
  mimetype :: string
  file_size :: nat

text \<open>
  The configuration the middleware reads: \<open>parseInt(process.env.MAX_FILE_SIZE)\<close>
  (\<open>None\<close> for \<open>NaN\<close>) and the unique suffix (time stamp and random number) of the
  generated file name.
\<close>

record upload_env =
  MAX_FILE_SIZE :: "int option"
  uniqueSuffix :: string

datatype upload_error = MulterError string | PlainError string

text \<open>\<open>parseInt(process.env.MAX_FILE_SIZE) || 5 * 1024 * 1024\<close>\<close>

definition fileSize_limit :: "upload_env \<Rightarrow> int" where
  "fileSize_limit ue =
     (case MAX_FILE_SIZE ue of
        Some n \<Rightarrow> if n \<noteq> 0 then n else 5 * 1024 * 1024
      | None \<Rightarrow> 5 * 1024 * 1024)"

text \<open>\<open>fileFilter\<close>: \<open>file.mimetype.startsWith('image/')\<close>\<close>

definition fileFilter :: "upload_file \<Rightarrow> upload_error + bool" where
  "fileFilter file =
     (if prefix ''image/'' (mimetype file) then Inr True
      else Inl (PlainError ''Only image files are allowed!''))"

text \<open>\<open>path.extname\<close> of a plain file name.\<close>

definition extname :: "string \<Rightarrow> string" where
  "extname name =
     (let r = takeWhile (\<lambda>c. c \<noteq> CHR ''.'') (rev name)
      in if length r = length name \<or> Suc (length r) = length name then []
         else CHR ''.'' # rev r)"

definition storage_filename :: "upload_env \<Rightarrow> upload_file \<Rightarrow> string" where
  "storage_filename ue file = ''book-cover-'' @ uniqueSuffix ue @ extname (originalname file)"

text \<open>
  \<open>uploadSingle = upload.single('coverImage')\<close>. The library takes a file under that
  field name only, asks \<open>fileFilter\<close> before it stores anything, stores the file under
  the generated name, and when the bytes it has taken reach \<open>limits.fileSize\<close> removes
  what it stored and fails with \<open>LIMIT_FILE_SIZE\<close>: a file of exactly the limit is
  refused, and a negative limit is never reached. The result is \<open>req.file.filename\<close>.
\<close>

definition uploadSingle :: "upload_env \<Rightarrow> upload_file option \<Rightarrow> world \<Rightarrow> upload_error + (string option \<times> world)" where
  "uploadSingle ue incoming w =
     (case incoming of
        None \<Rightarrow> Inr (None, w)
      | Some file \<Rightarrow>
          if fieldname file \<noteq> ''coverImage'' then Inl (MulterError ''LIMIT_UNEXPECTED_FILE'')
          else (case fileFilter file of
                  Inl err \<Rightarrow> Inl err
                | Inr accepted \<Rightarrow>
                    if 0 < fileSize_limit ue \<and> fileSize_limit ue \<le> int (file_size file)
                    then Inl (MulterError ''LIMIT_FILE_SIZE'')
                    else Inr (Some (storage_filename ue file),
                              w\<lparr>files := insert (storage_filename ue file) (files w)\<rparr>)))"

text \<open>
  \<open>optimizeImage\<close> rewrites the stored file under the same name, and carries on with the
  original when the rewrite fails: the names in the directory are the same either way.
\<close>

definition optimizeImage :: "string option \<Rightarrow> world \<Rightarrow> world" where
  "optimizeImage file w = w"

text \<open>\<open>deleteUploadedFile\<close>\<close>

definition deleteUploadedFile :: "string \<Rightarrow> world \<Rightarrow> world" where
  "deleteUploadedFile filename w =
     (if filename \<noteq> [] then w\<lparr>files := files w - {filename}\<rparr> else w)"

section \<open>Requests and responses\<close>

text \<open>
  A request after the authentication middleware: \<open>req.user._id\<close>, \<open>req.params.id\<close>,
  \<open>req.body\<close> and \<open>req.file.filename\<close>.
\<close>

record request =
  req_user :: objectId
  req_id :: objectId
  req_body :: fields
  req_file :: "string option"

text \<open>
  A volume of the third-party catalogue (\<open>item.volumeInfo\<close>) and the shape the
  external search maps it to. An industry identifier is its type and its value; the image
  links are the thumbnail and the small thumbnail.
\<close>

record volumeInfo =
  vi_title :: "string option"
  vi_authors :: "string list option"
  vi_categories :: "string list option"
  vi_description :: "string option"
  vi_industryIdentifiers :: "(string \<times> string) list option"
  vi_publishedDate :: "string option"
  vi_pageCount :: "int option"
  vi_imageLinks :: "(string option \<times> string option) option"
  vi_language :: "string option"

record ext_book =
  x_title :: string
  x_author :: string
  x_genre :: "string option"
  x_description :: string
  x_isbn :: "string option"
  x_publishedDate :: string
  x_pageCount :: "int option"
  x_coverImage :: "string option"
  x_language :: string

datatype payload =
    Message string
  | Details string "string list"
  | WithBook string "book option"
  | OneBook book
  | BookList "book list"
  | DeletedBook string objectId string string
  | ExternalBooks "ext_book list"

datatype response = Response nat payload

fun status_code :: "response \<Rightarrow> nat" where
  "status_code (Response c p) = c"

text \<open>
  \<open>handleUploadError\<close>: the response it sends, or \<open>None\<close> when it passes the error on
  with \<open>next(err)\<close>.
\<close>

definition handleUploadError :: "upload_error \<Rightarrow> response option" where
  "handleUploadError err =
     (case err of
        MulterError code \<Rightarrow>
          if code = ''LIMIT_FILE_SIZE'' then Some (Response 400 (Message ''File too large. Maximum size is 5MB.''))
          else if code = ''LIMIT_FILE_COUNT'' then Some (Response 400 (Message ''Too many files. Only one file allowed.''))
          else if code = ''LIMIT_UNEXPECTED_FILE'' then Some (Response 400 (Message ''Unexpected file field.''))
          else None
      | PlainError msg \<Rightarrow>
          if msg = ''Only image files are allowed!''
          then Some (Response 400 (Message ''Only image files (JPEG, PNG, GIF, WebP) are allowed.''))
          else None)"

text \<open>The path a book stores for an uploaded cover: \<open>`/uploads/${req.file.filename}`\<close>.\<close>

definition upload_path :: "string \<Rightarrow> string" where
  "upload_path filename = ''/uploads/'' @ filename"

definition joi_message :: "joi_error \<Rightarrow> string" where
  "joi_message err = (case err of JoiError key rule \<Rightarrow> key @ '': '' @ rule)"

text \<open>\<open>if (req.file) { deleteUploadedFile(req.file.filename); }\<close>\<close>

definition delete_request_file :: "request \<Rightarrow> world \<Rightarrow> world" where
  "delete_request_file req w =
     (case req_file req of Some filename \<Rightarrow> deleteUploadedFile filename w | None \<Rightarrow> w)"

text \<open>
  Deleting the cover a stored book points to: only a path that starts with
  \<open>/uploads/\<close>, with that prefix taken off.
\<close>

definition delete_cover :: "book \<Rightarrow> world \<Rightarrow> world" where
  "delete_cover b w =
     (case coverImage b of
        Some c \<Rightarrow> if prefix ''/uploads/'' c then deleteUploadedFile (drop 9 c) w else w
      | None \<Rightarrow> w)"

section \<open>The validating router\<close>

text \<open>\<open>router.post('/')\<close>, after \<open>auth\<close>, \<open>uploadSingle\<close> and \<open>optimizeImage\<close>.\<close>

definition post_book :: "env \<Rightarrow> request \<Rightarrow> world \<Rightarrow> response \<times> world" where
  "post_book e req w =
     (case bookValidationSchema (req_body req) of
        Inl err \<Rightarrow>
          (Response 400 (Details ''Validation error'' [joi_message err]), delete_request_file req w)
      | Inr v \<Rightarrow>
          let cover = map_option upload_path (req_file req)
          in (case Book_save e v cover (req_user req) w of
                Inr (bk, w') \<Rightarrow> (Response 201 (WithBook ''Book added successfully'' (Some bk)), w')
              | Inl (ValidationError errors) \<Rightarrow>
                  (Response 400 (Details ''Validation error'' errors), delete_request_file req w)
              | Inl OtherError \<Rightarrow>
                  (Response 500 (Message ''Server error while adding book''), delete_request_file req w)))"


text \<open>\<open>router.put('/:id')\<close>, after \<open>auth\<close>, \<open>uploadSingle\<close> and \<open>optimizeImage\<close>.\<close>

definition put_book :: "env \<Rightarrow> request \<Rightarrow> world \<Rightarrow> response \<times> world" where
  "put_book e req w =
     (case bookValidationSchema (req_body req) of
        Inl err \<Rightarrow>
          (Response 400 (Details ''Validation error'' [joi_message err]), delete_request_file req w)
      | Inr v \<Rightarrow>
          (case Book_findOne w (req_id req) (req_user req) of
             None \<Rightarrow> (Response 404 (Message ''Book not found''), delete_request_file req w)
           | Some existingBook \<Rightarrow>
               let w1 = (case req_file req of Some filename \<Rightarrow> delete_cover existingBook w | None \<Rightarrow> w);
                   cover = map_option (\<lambda>filename. Some (upload_path filename)) (req_file req)
               in (case Book_findOneAndUpdate e (req_id req) (req_user req) v cover True w1 of
                     Inr (bk, w2) \<Rightarrow> (Response 200 (WithBook ''Book updated successfully'' bk), w2)
                   | Inl (ValidationError errors) \<Rightarrow>
                       (Response 400 (Details ''Validation error'' errors), delete_request_file req w1)
                   | Inl OtherError \<Rightarrow>
                       (Response 500 (Message ''Server error while updating book''),
                        delete_request_file req w1))))"

text \<open>\<open>router.delete('/:id')\<close>\<close>

definition delete_book :: "env \<Rightarrow> request \<Rightarrow> world \<Rightarrow> response \<times> world" where
  "delete_book e req w =
     (case Book_findOneAndDelete e (req_id req) (req_user req) w of
        (None, w') \<Rightarrow> (Response 404 (Message ''Book not found''), w')
      | (Some bk, w') \<Rightarrow>
          (Response 200 (DeletedBook ''Book deleted successfully'' (bid bk) (title bk) (author bk)),
           delete_cover bk w'))"

text \<open>
  A route with its middleware chain: an error of the upload middleware skips the
  handler and reaches \<open>router.use(handleUploadError)\<close>; what that passes on ends in the
  framework's default handler, a 500.
\<close>

definition with_upload ::
  "upload_env \<Rightarrow> upload_file option \<Rightarrow> (request \<Rightarrow> world \<Rightarrow> response \<times> world) \<Rightarrow> request \<Rightarrow> world
     \<Rightarrow> response \<times> world" where
  "with_upload ue incoming handler req w =
     (case uploadSingle ue incoming w of
        Inl err \<Rightarrow>
          (case handleUploadError err of
             Some r \<Rightarrow> (r, w)
           | None \<Rightarrow> (Response 500 (Message ''Internal Server Error''), w))
      | Inr (file, w1) \<Rightarrow> handler (req\<lparr>req_file := file\<rparr>) (optimizeImage file w1))"

definition route_post_book :: "upload_env \<Rightarrow> env \<Rightarrow> upload_file option \<Rightarrow> request \<Rightarrow> world \<Rightarrow> response \<times> world" where
  "route_post_book ue e incoming req w = with_upload ue incoming (post_book e) req w"

definition route_put_book :: "upload_env \<Rightarrow> env \<Rightarrow> upload_file option \<Rightarrow> request \<Rightarrow> world \<Rightarrow> response \<times> world" where
  "route_put_book ue e incoming req w = with_upload ue incoming (put_book e) req w"

section \<open>Search over the caller's books\<close>




text \<open>\<open>.sort({ createdAt: -1 })\<close>\<close>

definition sort_createdAt_desc :: "book list \<Rightarrow> book list" where
  "sort_createdAt_desc bs = sort_key (\<lambda>b. - createdAt b) bs"














section \<open>Search in the third-party catalogue\<close>

text \<open>
  The environment of the external search: the configured key and the catalogue. A lookup
  is the query and the key it is sent with; it fails (\<open>None\<close>), or answers without
  \<open>items\<close> (\<open>Some None\<close>), or answers with items.
\<close>

record ext_env =
  GOOGLE_BOOKS_API_KEY :: "string option"
  upstream :: "string \<times> string \<Rightarrow> volumeInfo list option option"

text \<open>\<open>a || b\<close> on strings that may be undefined: the first if it is a non-empty string.\<close>

definition or_else :: "string option \<Rightarrow> string \<Rightarrow> string" where
  "or_else v d = (case v of None \<Rightarrow> d | Some s \<Rightarrow> if s = [] then d else s)"

fun join_comma :: "string list \<Rightarrow> string" where
  "join_comma [] = []"
| "join_comma [x] = x"
| "join_comma (x # y # ys) = x @ '', '' @ join_comma (y # ys)"

definition first_identifier :: "(string \<times> string) list \<Rightarrow> string option" where
  "first_identifier ids = (case ids of [] \<Rightarrow> None | i # rest \<Rightarrow> Some (snd i))"

definition pick_isbn :: "(string \<times> string) list option \<Rightarrow> string option" where
  "pick_isbn v =
     (case v of
        None \<Rightarrow> Some []
      | Some ids \<Rightarrow>
          (case find (\<lambda>i. fst i = ''ISBN_13'') ids of
             Some i \<Rightarrow> if snd i \<noteq> [] then Some (snd i) else first_identifier ids
           | None \<Rightarrow> first_identifier ids))"

definition pick_cover :: "(string option \<times> string option) option \<Rightarrow> string option" where
  "pick_cover v =
     (case v of
        None \<Rightarrow> None
      | Some links \<Rightarrow>
          (case fst links of
             Some t \<Rightarrow> if t \<noteq> [] then Some t else snd links
           | None \<Rightarrow> snd links))"

text \<open>The mapping of one item of the answer.\<close>

definition normalize_volume :: "volumeInfo \<Rightarrow> ext_book" where
  "normalize_volume book =
     \<lparr>x_title = or_else (vi_title book) ''Unknown Title'',
      x_author = (case vi_authors book of Some as \<Rightarrow> join_comma as | None \<Rightarrow> ''Unknown Author''),
      x_genre = (case vi_categories book of
                   Some cs \<Rightarrow> (case cs of [] \<Rightarrow> None | c # rest \<Rightarrow> Some c)
                 | None \<Rightarrow> Some []),
      x_description = or_else (vi_description book) [],
      x_isbn = pick_isbn (vi_industryIdentifiers book),
      x_publishedDate = or_else (vi_publishedDate book) [],
      x_pageCount = (case vi_pageCount book of Some n \<Rightarrow> if n = 0 then None else Some n | None \<Rightarrow> None),
      x_coverImage = pick_cover (vi_imageLinks book),
      x_language = or_else (vi_language book) ''en''\<rparr>"

text \<open>
  \<open>router.get('/search-external')\<close>: the response, and the lookups that were sent to the
  catalogue.
\<close>

definition get_search_external :: "ext_env \<Rightarrow> string option \<Rightarrow> response \<times> (string \<times> string) list" where
  "get_search_external xe query =
     (case query of
        None \<Rightarrow> (Response 400 (Message ''Query is required''), [])
      | Some q \<Rightarrow>
          if q = [] then (Response 400 (Message ''Query is required''), [])
          else (case GOOGLE_BOOKS_API_KEY xe of
                  None \<Rightarrow> (Response 500 (Message ''Google Books API not configured''), [])
                | Some k \<Rightarrow>
                    if k = [] then (Response 500 (Message ''Google Books API not configured''), [])
                    else (case upstream xe (q, k) of
                            None \<Rightarrow>
                              (Response 500 (Message ''Error searching external book database''), [(q, k)])
                          | Some None \<Rightarrow> (Response 200 (ExternalBooks []), [(q, k)])
                          | Some (Some items) \<Rightarrow>
                              (Response 200 (ExternalBooks (map normalize_volume items)), [(q, k)]))))"

section \<open>Concrete data for the examples\<close>

definition no_fields :: fields where
  "no_fields =
     \<lparr>f_title = None, f_author = None, f_genre = None, f_status = None, f_description = None,
      f_isbn = None, f_publishedDate = None, f_pageCount = None, f_rating = None,
      f_notes = None, f_tags = None, f_dateStarted = None, f_dateFinished = None,
      f_readingDuration = None\<rparr>"

definition dune :: "objectId \<Rightarrow> objectId \<Rightarrow> string \<Rightarrow> book" where
  "dune i u st =
     \<lparr>bid = i, title = ''Dune'', author = ''Herbert'', genre = None, status = st,
      description = None, isbn = None, publishedDate = None, pageCount = None, rating = None,
      book_notes = None, coverImage = None, user = u, tags = [], dateStarted = None,
      dateFinished = None, readingDuration = None, createdAt = 0\<rparr>"

definition zero_user :: "objectId \<Rightarrow> user_doc" where
  "zero_user u = \<lparr>uid = u, ustats = reset_stats\<rparr>"

definition quiet_env :: env where
  "quiet_env = \<lparr>now = 1000, newId = 7, write_fails = False, stats_fails = False\<rparr>"

text \<open>The number of the user's books that have a given status.\<close>

definition count_status :: "book list \<Rightarrow> objectId \<Rightarrow> string \<Rightarrow> nat" where
  "count_status bs u s = length (filter (\<lambda>b. user b = u \<and> status b = s) bs)"

definition dune_fields :: "string \<Rightarrow> fields" where
  "dune_fields st = no_fields\<lparr>f_title := Some ''Dune'', f_author := Some ''Herbert'', f_status := Some st\<rparr>"

definition one_book_world :: "string \<Rightarrow> world" where
  "one_book_world st =
     \<lparr>books = [dune 1 1 st],
      users = [\<lparr>uid = 1, ustats = stats_of_groups [(st, 1)]\<rparr>],
      files = {}\<rparr>"

definition request_for :: "objectId \<Rightarrow> objectId \<Rightarrow> fields \<Rightarrow> request" where
  "request_for u i body = \<lparr>req_user = u, req_id = i, req_body = body, req_file = None\<rparr>"

definition upload_request :: "fields \<Rightarrow> request" where
  "upload_request body = \<lparr>req_user = 1, req_id = 0, req_body = body, req_file = Some ''book-cover-1.png''\<rparr>"


definition big_image :: upload_file where
  "big_image = \<lparr>fieldname = ''coverImage'', originalname = ''cover.png'', mimetype = ''image/png'',
                 file_size = 8388608\<rparr>"

definition big_text :: upload_file where
  "big_text = \<lparr>fieldname = ''coverImage'', originalname = ''notes.txt'', mimetype = ''text/plain'',
                file_size = 8388608\<rparr>"

definition default_upload_env :: upload_env where
  "default_upload_env = \<lparr>MAX_FILE_SIZE = None, uniqueSuffix = ''1700000000000-42''\<rparr>"

definition catalogue :: "string \<times> string \<Rightarrow> volumeInfo list option option" where
  "catalogue lookup =
     (if fst lookup = ''dune''
      then Some (Some [\<lparr>vi_title = Some ''Dune'', vi_authors = Some [''Frank Herbert''],
                        vi_categories = None, vi_description = None,
                        vi_industryIdentifiers = Some [(''ISBN_10'', ''0441013597''), (''ISBN_13'', ''9780441013593'')],
                        vi_publishedDate = Some ''1965'', vi_pageCount = Some 0,
                        vi_imageLinks = None, vi_language = None\<rparr>])
      else Some None)"



definition after_update_to_reading :: world where
  "after_update_to_reading =
     snd (put_book quiet_env (request_for 1 1 (dune_fields ''Reading'')) (one_book_world ''To Read''))"

definition after_update_to_read :: world where
  "after_update_to_read =
     snd (put_book (quiet_env\<lparr>now := 2000\<rparr>) (request_for 1 1 (dune_fields ''Read'')) after_update_to_reading)"

definition small_image :: upload_file where
  "small_image = \<lparr>fieldname = ''coverImage'', originalname = ''cover.png'', mimetype = ''image/png'',
                   file_size = 1000\<rparr>"

definition stored_name :: string where
  "stored_name = ''book-cover-1700000000000-42.png''"

definition negative_ceiling_env :: upload_env where
  "negative_ceiling_env = \<lparr>MAX_FILE_SIZE = Some (- 5), uniqueSuffix = ''1700000000000-42''\<rparr>"

definition two_users_world :: world where
  "two_users_world =
     \<lparr>books = [dune 1 1 ''Read'', dune 2 1 ''Reading'', dune 3 2 ''Read'', dune 4 1 ''Read''],
      users = [zero_user 1, zero_user 2], files = {}\<rparr>"

section \<open>Properties of the pre-save hook\<close>


lemma pre_save_keeps_dateStarted:
  "dateStarted this = Some d \<Longrightarrow> dateStarted (pre_save nw m this) = Some d"
  by (simp add: pre_save_def Let_def split: option.splits)

lemma pre_save_keeps_dateFinished:
  "dateFinished this = Some d \<Longrightarrow> dateFinished (pre_save nw m this) = Some d"
  by (simp add: pre_save_def Let_def split: option.splits)

section \<open>Properties of the statistics snapshot\<close>

lemma foldl_apply_stat_total:
  "totalBooks (foldl apply_stat st gs) = totalBooks st + sum_list (map snd gs)"
  by (induction gs arbitrary: st) (auto simp: apply_stat_def Let_def)

lemma foldl_apply_stat_booksRead:
  "distinct (map fst gs) \<Longrightarrow>
   booksRead (foldl apply_stat st gs) =
     (case map_of gs ''Read'' of Some c \<Rightarrow> c | None \<Rightarrow> booksRead st)"
  by (induction gs arbitrary: st) (force simp: apply_stat_def Let_def split: option.splits)+

lemma foldl_apply_stat_currentlyReading:
  "distinct (map fst gs) \<Longrightarrow>
   currentlyReading (foldl apply_stat st gs) =
     (case map_of gs ''Reading'' of Some c \<Rightarrow> c | None \<Rightarrow> currentlyReading st)"
  by (induction gs arbitrary: st) (force simp: apply_stat_def Let_def split: option.splits)+

lemma foldl_apply_stat_toRead:
  "distinct (map fst gs) \<Longrightarrow>
   toRead (foldl apply_stat st gs) =
     (case map_of gs ''To Read'' of Some c \<Rightarrow> c | None \<Rightarrow> toRead st)"
  by (induction gs arbitrary: st) (force simp: apply_stat_def Let_def split: option.splits)+

lemma map_of_groups:
  "map_of (map (\<lambda>s. (s, count_list ss s)) (remdups ss)) k =
     (if k \<in> set ss then Some (count_list ss k) else None)"
  by (induction "remdups ss") (auto simp: map_of_map_restrict restrict_map_def)


lemma count_list_status:
  "count_list (map status (filter (\<lambda>b. user b = u) bs)) s = count_status bs u s"
  by (induction bs) (auto simp: count_status_def)

lemma sum_list_groups: "sum_list (map (count_list ss) (remdups ss)) = length ss"
proof -
  have "sum_list (map (count_list ss) (remdups ss)) = sum (count_list ss) (set ss)"
    by (simp add: sum_list_distinct_conv_sum_set)
  then show ?thesis by (simp add: sum_count_set)
qed

lemma groups_distinct: "distinct (map fst (map (\<lambda>s. (s, count_list ss s)) (remdups ss)))"
  by (simp add: comp_def)

lemma groups_counters:
  "booksRead (foldl apply_stat reset_stats (map (\<lambda>s. (s, count_list ss s)) (remdups ss))) = count_list ss ''Read''"
  "currentlyReading (foldl apply_stat reset_stats (map (\<lambda>s. (s, count_list ss s)) (remdups ss))) = count_list ss ''Reading''"
  "toRead (foldl apply_stat reset_stats (map (\<lambda>s. (s, count_list ss s)) (remdups ss))) = count_list ss ''To Read''"
  by (simp_all only: foldl_apply_stat_booksRead[OF groups_distinct]
        foldl_apply_stat_currentlyReading[OF groups_distinct]
        foldl_apply_stat_toRead[OF groups_distinct] map_of_groups)
     (simp_all add: reset_stats_def)

lemma stats_of_groups_counters:
  "booksRead (stats_of_groups (aggregate_by_status bs u)) = count_status bs u ''Read''"
  "currentlyReading (stats_of_groups (aggregate_by_status bs u)) = count_status bs u ''Reading''"
  "toRead (stats_of_groups (aggregate_by_status bs u)) = count_status bs u ''To Read''"
  unfolding stats_of_groups_def aggregate_by_status_def Let_def groups_counters
  by (rule count_list_status)+

lemma stats_of_groups_total:
  "totalBooks (stats_of_groups (aggregate_by_status bs u)) = length (filter (\<lambda>b. user b = u) bs)"
  by (simp add: stats_of_groups_def aggregate_by_status_def Let_def foldl_apply_stat_total
        comp_def sum_list_groups reset_stats_def)

lemma enum_total:
  assumes "\<forall>b \<in> set bs. user b = u \<longrightarrow> status b \<in> {''To Read'', ''Reading'', ''Read''}"
  shows "length (filter (\<lambda>b. user b = u) bs) =
           count_status bs u ''Read'' + count_status bs u ''Reading'' + count_status bs u ''To Read''"
  using assms by (induction bs) (auto simp: count_status_def)


lemma users_updateStats:
  "usr \<in> set (users (updateStats w u)) \<Longrightarrow> uid usr = u \<Longrightarrow>
   ustats usr = stats_of_groups (aggregate_by_status (books w) u)"
proof -
  assume a: "usr \<in> set (users (updateStats w u))" and b: "uid usr = u"
  define S where "S = stats_of_groups (aggregate_by_status (books w) u)"
  from a obtain x where x: "x \<in> set (users w)"
    and eq: "usr = (if uid x = u then x\<lparr>ustats := S\<rparr> else x)"
    unfolding updateStats_def S_def by auto
  show "ustats usr = stats_of_groups (aggregate_by_status (books w) u)"
  proof (cases "uid x = u")
    case True
    with eq have "usr = x\<lparr>ustats := S\<rparr>" by simp
    then have "ustats usr = S" by simp
    then show ?thesis by (simp add: S_def)
  next
    case False
    with eq b show ?thesis by simp
  qed
qed

text \<open>
  Claim C10. After \<open>updateStats\<close> has run for a user, the three per-status counters of
  the stored snapshot are the numbers of that user's books with status \<open>Read\<close>,
  \<open>Reading\<close> and \<open>To Read\<close>; and when every book of the user has one of the three
  status literals, \<open>totalBooks\<close> is the sum of the three counters.
\<close>

theorem updateStats_snapshot:
  assumes "usr \<in> set (users (updateStats w u))" and "uid usr = u"
  shows "booksRead (ustats usr) = count_status (books w) u ''Read''
       \<and> currentlyReading (ustats usr) = count_status (books w) u ''Reading''
       \<and> toRead (ustats usr) = count_status (books w) u ''To Read''
       \<and> ((\<forall>b \<in> set (books w). user b = u \<longrightarrow> status b \<in> set status_values)
            \<longrightarrow> totalBooks (ustats usr)
                  = booksRead (ustats usr) + currentlyReading (ustats usr) + toRead (ustats usr))"
proof -
  have st: "ustats usr = stats_of_groups (aggregate_by_status (books w) u)"
    using assms by (rule users_updateStats)
  have tot: "(\<forall>b \<in> set (books w). user b = u \<longrightarrow> status b \<in> set status_values) \<longrightarrow>
     length (filter (\<lambda>b. user b = u) (books w)) =
       count_status (books w) u ''Read'' + count_status (books w) u ''Reading''
       + count_status (books w) u ''To Read''"
    using enum_total[of "books w" u] by (simp add: status_values_def)
  show ?thesis
    unfolding st stats_of_groups_counters stats_of_groups_total
    using tot by blast
qed

theorem updateStats_snapshot_witness:
  "\<lparr>uid = 1, ustats = \<lparr>totalBooks = 3, booksRead = 2, currentlyReading = 1, toRead = 0\<rparr>\<rparr>
     \<in> set (users (updateStats two_users_world 1))
   \<and> set (map status (filter (\<lambda>b. user b = 1) (books two_users_world))) \<subseteq> set status_values
   \<and> count_status (books two_users_world) 1 ''Read'' = 2
   \<and> count_status (books two_users_world) 1 ''Reading'' = 1
   \<and> count_status (books two_users_world) 1 ''To Read'' = 0"
proof -
  let ?usr = "\<lparr>uid = 1, ustats = \<lparr>totalBooks = 3, booksRead = 2, currentlyReading = 1, toRead = 0\<rparr>\<rparr>"
  have m: "?usr \<in> set (users (updateStats two_users_world 1))"
    by code_simp
  have e: "set (map status (filter (\<lambda>b. user b = 1) (books two_users_world))) \<subseteq> set status_values"
    by code_simp
  from updateStats_snapshot[OF m] e m show ?thesis by simp
qed

section \<open>What the handlers leave alone\<close>

lemma deleteUploadedFile_keeps [simp]:
  "books (deleteUploadedFile f w) = books w" "users (deleteUploadedFile f w) = users w"
  by (simp_all add: deleteUploadedFile_def)

lemma delete_request_file_keeps [simp]:
  "books (delete_request_file req w) = books w" "users (delete_request_file req w) = users w"
  by (simp_all add: delete_request_file_def split: option.splits)

lemma delete_cover_keeps [simp]:
  "books (delete_cover b w) = books w" "users (delete_cover b w) = users w"
  by (simp_all add: delete_cover_def split: option.splits)

lemma updateStats_keeps [simp]:
  "books (updateStats w u) = books w" "files (updateStats w u) = files w"
  by (simp_all add: updateStats_def)

lemma post_save_keeps [simp]:
  "books (post_save e d w) = books w" "files (post_save e d w) = files w"
  by (simp_all add: post_save_def)

lemma bookSchema_post_keeps [simp]:
  "books (bookSchema_post ev e d w) = books w" "files (bookSchema_post ev e d w) = files w"
  by (simp_all add: bookSchema_post_def post_findOneAndDelete_def split: hook_event.splits option.splits)

lemma bookValidationSchema_strips:
  assumes "bookValidationSchema body = Inr v"
  shows "f_dateStarted v = None" "f_dateFinished v = None" "f_readingDuration v = None"
  using assms by (auto simp: bookValidationSchema_def bind_joi_def split: sum.splits)

lemma bookValidationSchema_status:
  assumes "bookValidationSchema body = Inr v"
  shows "\<exists>s \<in> set status_values. f_status v = Some s"
  using assms by (auto simp: bookValidationSchema_def bind_joi_def joi_status_def status_values_def split: sum.splits option.splits if_splits)

lemma replace_first_map:
  "find P bs = Some old \<Longrightarrow> f new = f old \<Longrightarrow> map f (replace_first P new bs) = map f bs"
  by (induction bs) (auto split: if_splits)

lemma replace_first_none: "find P bs = None \<Longrightarrow> replace_first P new bs = bs"
  by (induction bs) (auto split: if_splits)

lemma apply_set_dates:
  "f_dateStarted v = None \<Longrightarrow> dateStarted (apply_set v c old) = dateStarted old"
  "f_dateFinished v = None \<Longrightarrow> dateFinished (apply_set v c old) = dateFinished old"
  "f_readingDuration v = None \<Longrightarrow> readingDuration (apply_set v c old) = readingDuration old"
  by (simp_all add: apply_set_def)

lemma Book_findOneAndUpdate_dates:
  assumes "Book_findOneAndUpdate e i u v c rv w = Inr (r, w')"
    and "f_dateStarted v = None" "f_dateFinished v = None"
  shows "map dateStarted (books w') = map dateStarted (books w)"
    and "map dateFinished (books w') = map dateFinished (books w)"
  using assms
  by (auto simp: Book_findOneAndUpdate_def Let_def Book_findOne_def bookSchema_pre_def
        replace_first_map apply_set_dates split: if_splits option.splits)

lemma put_book_dates:
  "map dateStarted (books (snd (put_book e req w))) = map dateStarted (books w)"
  "map dateFinished (books (snd (put_book e req w))) = map dateFinished (books w)"
  by (auto simp: put_book_def Let_def bookValidationSchema_strips
      dest: Book_findOneAndUpdate_dates
      split: sum.splits option.splits store_error.splits prod.splits)


section \<open>The update path and the hooks of \<open>save\<close>\<close>

text \<open>
  Claim C1 at a failing input. A stored book with status \<open>To Read\<close> and no start date is
  updated with status \<open>Reading\<close>: the update succeeds, the stored status is \<open>Reading\<close>,
  and \<open>dateStarted\<close> is still unset. In the same way an update to \<open>Read\<close> leaves
  \<open>dateFinished\<close> unset. The update runs \<open>findOneAndUpdate\<close>, and the transition rule is
  registered for \<open>save\<close> only.
\<close>

theorem update_skips_transition_rule:
  "put_book quiet_env (request_for 1 1 (dune_fields ''Reading'')) (one_book_world ''To Read'')
     = (Response 200 (WithBook ''Book updated successfully'' (Some (dune 1 1 ''Reading''))),
        (one_book_world ''To Read'')\<lparr>books := [dune 1 1 ''Reading'']\<rparr>)
   \<and> dateStarted (dune 1 1 ''Reading'') = None
   \<and> put_book quiet_env (request_for 1 1 (dune_fields ''Read'')) (one_book_world ''Reading'')
     = (Response 200 (WithBook ''Book updated successfully'' (Some (dune 1 1 ''Read''))),
        (one_book_world ''Reading'')\<lparr>books := [dune 1 1 ''Read'']\<rparr>)
   \<and> dateFinished (dune 1 1 ''Read'') = None"
  by code_simp

text \<open>
  Claim C2 at a failing input. The owner's snapshot says one book, to read. The book is
  updated to \<open>Read\<close>: the update succeeds and the snapshot is unchanged, while the
  aggregate over the stored books now says one book, read. The statistics hooks are
  registered for \<open>save\<close> and \<open>findOneAndDelete\<close>, not for \<open>findOneAndUpdate\<close>.
\<close>

theorem update_leaves_stats_stale:
  "users (snd (put_book quiet_env (request_for 1 1 (dune_fields ''Read'')) (one_book_world ''To Read'')))
     = [\<lparr>uid = 1, ustats = \<lparr>totalBooks = 1, booksRead = 0, currentlyReading = 0, toRead = 1\<rparr>\<rparr>]
   \<and> stats_of_groups (aggregate_by_status
         (books (snd (put_book quiet_env (request_for 1 1 (dune_fields ''Read'')) (one_book_world ''To Read'')))) 1)
     = \<lparr>totalBooks = 1, booksRead = 1, currentlyReading = 0, toRead = 0\<rparr>"
  by code_simp

text \<open>
  Claim C3 at a failing input. The status of a stored book becomes \<open>Reading\<close> for the
  first time through an update, and later \<open>Read\<close> through another: neither update stamps
  a date, so \<open>dateStarted\<close> is not set when the status first becomes \<open>Reading\<close> and
  \<open>dateFinished\<close> is not set when it first becomes \<open>Read\<close>. The dates can only be
  stamped by the hook of \<open>save\<close>, which the updates do not run; a date that is recorded
  is never overwritten, neither by the hook nor by an update.
\<close>

theorem first_reading_by_update_stamps_nothing:
  "map status (books (one_book_world ''To Read'')) = [''To Read'']
   \<and> map status (books after_update_to_reading) = [''Reading'']
   \<and> map dateStarted (books after_update_to_reading) = [None]
   \<and> map status (books after_update_to_read) = [''Read'']
   \<and> map dateStarted (books after_update_to_read) = [None]
   \<and> map dateFinished (books after_update_to_read) = [None]"
  by code_simp

text \<open>
  On the paths that do run a hook, the snapshot is the aggregate over the stored books,
  and a failure of the recomputation changes neither the response nor the stored books.
\<close>

lemma Book_save_world:
  "Book_save e v c u w = Inr (bk, w') \<Longrightarrow>
   books w' = books w @ [bk] \<and> user bk = u \<and> w' = post_save e bk (w\<lparr>books := books w @ [bk]\<rparr>)"
  by (auto simp: Book_save_def Let_def bookSchema_post_def bookSchema_pre_def new_Book_def
        pre_save_def split: if_splits option.splits)

lemma post_save_recomputes:
  assumes "\<not> stats_fails e" and "usr \<in> set (users (post_save e bk w))" and "uid usr = user bk"
  shows "ustats usr = stats_of_groups (aggregate_by_status (books w) (user bk))"
proof -
  have ex: "\<exists>x \<in> set (users w). uid x = user bk"
  proof (rule ccontr)
    assume n: "\<not> (\<exists>x \<in> set (users w). uid x = user bk)"
    with assms(1) have "post_save e bk w = w" by (simp add: post_save_def)
    with assms(2,3) n show False by auto
  qed
  with assms(1) have "post_save e bk w = updateStats w (user bk)" by (simp add: post_save_def)
  with assms(2,3) show ?thesis by (simp add: users_updateStats)
qed

lemma post_book_recomputes:
  assumes "post_book e req w = (Response 201 p, w')" and "\<not> stats_fails e"
    and "usr \<in> set (users w')" and "uid usr = req_user req"
  shows "ustats usr = stats_of_groups (aggregate_by_status (books w') (req_user req))"
proof -
  from assms(1) obtain v bk where
    sv: "Book_save e v (map_option upload_path (req_file req)) (req_user req) w = Inr (bk, w')"
    by (auto simp: post_book_def Let_def split: sum.splits store_error.splits prod.splits)
  from Book_save_world[OF sv] have b: "books w' = books w @ [bk]" and u: "user bk = req_user req"
    and w': "w' = post_save e bk (w\<lparr>books := books w @ [bk]\<rparr>)" by auto
  from assms(3) w' have m: "usr \<in> set (users (post_save e bk (w\<lparr>books := books w @ [bk]\<rparr>)))" by simp
  from post_save_recomputes[OF assms(2) m] assms(4) u b show ?thesis by simp
qed

lemma new_Book_stats_fails: "new_Book (e\<lparr>stats_fails := a\<rparr>) v c u = new_Book e v c u"
  by (simp add: new_Book_def)

lemma Book_save_stats_failure:
  "map_sum id (\<lambda>(bk, w'). (bk, books w', files w')) (Book_save (e\<lparr>stats_fails := True\<rparr>) v c u w)
   = map_sum id (\<lambda>(bk, w'). (bk, books w', files w')) (Book_save (e\<lparr>stats_fails := False\<rparr>) v c u w)"
  by (simp add: Book_save_def Let_def new_Book_stats_fails)

lemma post_book_stats_failure:
  "fst (post_book (e\<lparr>stats_fails := True\<rparr>) req w) = fst (post_book (e\<lparr>stats_fails := False\<rparr>) req w)
   \<and> books (snd (post_book (e\<lparr>stats_fails := True\<rparr>) req w)) = books (snd (post_book (e\<lparr>stats_fails := False\<rparr>) req w))"
proof (cases "bookValidationSchema (req_body req)")
  case (Inl err)
  then show ?thesis by (simp add: post_book_def)
next
  case (Inr v)
  let ?c = "map_option upload_path (req_file req)"
  from Book_save_stats_failure[of e v ?c "req_user req" w] Inr
  show ?thesis
    by (auto simp: post_book_def Let_def split: sum.splits store_error.splits)
qed


text \<open>
  On create the transition rule is applied: the book the validating router stores has
  its start date stamped when its status is \<open>Reading\<close> and its finish date stamped when
  its status is \<open>Read\<close>. After a delete the snapshot is the aggregate again.
\<close>

lemma pre_save_status [simp]: "status (pre_save nw m this) = status this"
  by (simp add: pre_save_def Let_def split: option.splits)

lemma Book_save_doc:
  "Book_save e v c u w = Inr (bk, w') \<Longrightarrow>
   bk = pre_save (now e) (f_status v \<noteq> None) (new_Book e v c u)"
  by (auto simp: Book_save_def Let_def bookSchema_pre_def split: if_splits)

lemma post_book_transition_rule:
  assumes "post_book e req w = (Response 201 (WithBook m (Some bk)), w')"
  shows "(status bk = ''Reading'' \<longrightarrow> dateStarted bk = Some (now e))
       \<and> (status bk = ''Read'' \<longrightarrow> dateFinished bk = Some (now e))
       \<and> bk \<in> set (books w')"
proof -
  from assms obtain v where
    v: "bookValidationSchema (req_body req) = Inr v"
    and sv: "Book_save e v (map_option upload_path (req_file req)) (req_user req) w = Inr (bk, w')"
    by (auto simp: post_book_def Let_def split: sum.splits store_error.splits prod.splits)
  from bookValidationSchema_status[OF v] obtain s where s: "f_status v = Some s" by auto
  note d = bookValidationSchema_strips[OF v]
  from Book_save_doc[OF sv] s
  have bk: "bk = pre_save (now e) True (new_Book e v (map_option upload_path (req_file req)) (req_user req))"
    by simp
  have "dateStarted (new_Book e v (map_option upload_path (req_file req)) (req_user req)) = None"
    "dateFinished (new_Book e v (map_option upload_path (req_file req)) (req_user req)) = None"
    using d by (simp_all add: new_Book_def)
  then have "(status bk = ''Reading'' \<longrightarrow> dateStarted bk = Some (now e))
       \<and> (status bk = ''Read'' \<longrightarrow> dateFinished bk = Some (now e))"
    unfolding bk by (auto simp: pre_save_def Let_def split: option.splits)
  moreover from Book_save_world[OF sv] have "bk \<in> set (books w')" by simp
  ultimately show ?thesis by simp
qed

lemma delete_book_recomputes:
  assumes "delete_book e req w = (Response 200 p, w')" and "\<not> stats_fails e"
    and "usr \<in> set (users w')" and "uid usr = req_user req"
  shows "ustats usr = stats_of_groups (aggregate_by_status (books w') (req_user req))"
proof -
  let ?w1 = "w\<lparr>books := remove_first (\<lambda>b. bid b = req_id req \<and> user b = req_user req) (books w)\<rparr>"
  from assms(1) obtain bk where
    f: "Book_findOne w (req_id req) (req_user req) = Some bk"
    and w': "w' = delete_cover bk (post_save e bk ?w1)"
    by (auto simp: delete_book_def Book_findOneAndDelete_def Let_def bookSchema_post_def
        post_findOneAndDelete_def split: option.splits)
  from f have u: "user bk = req_user req"
    by (auto simp: Book_findOne_def dest: find_Some_iff[THEN iffD1])
  from assms(3) w' have m: "usr \<in> set (users (post_save e bk ?w1))" by simp
  from post_save_recomputes[OF assms(2) m] assms(4) u w' show ?thesis by simp
qed


section \<open>Uploaded files on the failure paths\<close>

text \<open>
  In the validating router every response other than the success of the route comes with
  the uploaded file deleted and the stored books unchanged.
\<close>

lemma files_deleteUploadedFile: "f \<noteq> [] \<Longrightarrow> f \<notin> files (deleteUploadedFile f w)"
  by (simp add: deleteUploadedFile_def)

lemma files_delete_request_file:
  "req_file req = Some f \<Longrightarrow> f \<noteq> [] \<Longrightarrow> f \<notin> files (delete_request_file req w)"
  by (simp add: delete_request_file_def files_deleteUploadedFile)

lemma post_book_cleanup:
  assumes "req_file req = Some f" and "f \<noteq> []"
    and "status_code (fst (post_book e req w)) \<noteq> 201"
  shows "f \<notin> files (snd (post_book e req w)) \<and> books (snd (post_book e req w)) = books w"
  using assms
  by (auto simp: post_book_def Let_def files_delete_request_file
      split: sum.splits store_error.splits prod.splits)

lemma put_book_cleanup:
  assumes "req_file req = Some f" and "f \<noteq> []"
    and "status_code (fst (put_book e req w)) \<noteq> 200"
  shows "f \<notin> files (snd (put_book e req w)) \<and> books (snd (put_book e req w)) = books w"
  using assms
  by (auto simp: put_book_def Let_def files_delete_request_file
      split: sum.splits store_error.splits prod.splits option.splits)

lemma uploadSingle_accepted:
  assumes "uploadSingle ue (Some file) w = Inr (Some f, w1)"
  shows "f = storage_filename ue file" and "f \<noteq> []" and "books w1 = books w"
  using assms
  by (auto simp: uploadSingle_def storage_filename_def split: if_splits sum.splits)

text \<open>
  Claim C6. When the upload middleware has accepted a file of a create or an update
  request and the response is not the success of the route (validation failed, the book
  was not found, or the store refused the write), the file is not in the uploads
  directory afterwards and the stored books are those from before the request.
\<close>

theorem accepted_file_cleanup:
  assumes "uploadSingle ue (Some file) w = Inr (Some f, w1)"
  shows "(status_code (fst (route_post_book ue e (Some file) req w)) \<noteq> 201 \<longrightarrow>
            f \<notin> files (snd (route_post_book ue e (Some file) req w))
            \<and> books (snd (route_post_book ue e (Some file) req w)) = books w)
       \<and> (status_code (fst (route_put_book ue e (Some file) req w)) \<noteq> 200 \<longrightarrow>
            f \<notin> files (snd (route_put_book ue e (Some file) req w))
            \<and> books (snd (route_put_book ue e (Some file) req w)) = books w)"
proof -
  let ?req = "req\<lparr>req_file := Some f\<rparr>"
  have f: "req_file ?req = Some f" by simp
  note a = uploadSingle_accepted[OF assms]
  have p: "route_post_book ue e (Some file) req w = post_book e ?req w1"
    using assms by (simp add: route_post_book_def with_upload_def optimizeImage_def)
  have u: "route_put_book ue e (Some file) req w = put_book e ?req w1"
    using assms by (simp add: route_put_book_def with_upload_def optimizeImage_def)
  from post_book_cleanup[OF f a(2), of e w1] put_book_cleanup[OF f a(2), of e w1] a(3)
  show ?thesis unfolding p u by simp
qed

theorem accepted_file_cleanup_witness:
  "uploadSingle default_upload_env (Some small_image) (one_book_world ''Read'')
     = Inr (Some stored_name, (one_book_world ''Read'')\<lparr>files := {stored_name}\<rparr>)
   \<and> route_post_book default_upload_env quiet_env (Some small_image) (request_for 1 1 no_fields) (one_book_world ''Read'')
     = (Response 400 (Details ''Validation error'' [''title: any.required'']), one_book_world ''Read'')
   \<and> route_put_book default_upload_env (quiet_env\<lparr>write_fails := True\<rparr>) (Some small_image)
        (request_for 1 1 (dune_fields ''Reading'')) (one_book_world ''Read'')
     = (Response 500 (Message ''Server error while updating book''), one_book_world ''Read'')
   \<and> stored_name \<notin> files (one_book_world ''Read'')"
proof -
  have up: "uploadSingle default_upload_env (Some small_image) (one_book_world ''Read'')
     = Inr (Some stored_name, (one_book_world ''Read'')\<lparr>files := {stored_name}\<rparr>)"
    by (simp add: uploadSingle_def small_image_def default_upload_env_def fileFilter_def
        fileSize_limit_def storage_filename_def extname_def stored_name_def one_book_world_def)
  have 1: "route_post_book default_upload_env quiet_env (Some small_image) (request_for 1 1 no_fields) (one_book_world ''Read'')
     = post_book quiet_env ((request_for 1 1 no_fields)\<lparr>req_file := Some stored_name\<rparr>)
         ((one_book_world ''Read'')\<lparr>files := {stored_name}\<rparr>)"
    using up by (simp add: route_post_book_def with_upload_def optimizeImage_def)
  have 2: "route_put_book default_upload_env (quiet_env\<lparr>write_fails := True\<rparr>) (Some small_image)
        (request_for 1 1 (dune_fields ''Reading'')) (one_book_world ''Read'')
     = put_book (quiet_env\<lparr>write_fails := True\<rparr>) ((request_for 1 1 (dune_fields ''Reading''))\<lparr>req_file := Some stored_name\<rparr>)
         ((one_book_world ''Read'')\<lparr>files := {stored_name}\<rparr>)"
    using up by (simp add: route_put_book_def with_upload_def optimizeImage_def)
  have 3: "post_book quiet_env ((request_for 1 1 no_fields)\<lparr>req_file := Some stored_name\<rparr>)
         ((one_book_world ''Read'')\<lparr>files := {stored_name}\<rparr>)
      = (Response 400 (Details ''Validation error'' [''title: any.required'']), one_book_world ''Read'')"
    by code_simp
  have 4: "put_book (quiet_env\<lparr>write_fails := True\<rparr>) ((request_for 1 1 (dune_fields ''Reading''))\<lparr>req_file := Some stored_name\<rparr>)
         ((one_book_world ''Read'')\<lparr>files := {stored_name}\<rparr>)
      = (Response 500 (Message ''Server error while updating book''), one_book_world ''Read'')"
    by code_simp
  have 5: "stored_name \<notin> files (one_book_world ''Read'')"
    by (simp add: one_book_world_def)
  from accepted_file_cleanup[OF up, of quiet_env "request_for 1 1 no_fields"]
  have "status_code (fst (route_post_book default_upload_env quiet_env (Some small_image) (request_for 1 1 no_fields) (one_book_world ''Read''))) \<noteq> 201 \<longrightarrow>
     stored_name \<notin> files (snd (route_post_book default_upload_env quiet_env (Some small_image) (request_for 1 1 no_fields) (one_book_world ''Read'')))"
    by simp
  with up 1 2 3 4 5 show ?thesis by simp
qed

section \<open>Books of other users\<close>

lemma set_sort_createdAt_desc [simp]: "set (sort_createdAt_desc bs) = set bs"
  by (simp add: sort_createdAt_desc_def)












section \<open>Rejected uploads\<close>

lemma with_upload_too_large:
  assumes "fieldname file = ''coverImage''" and "prefix ''image/'' (mimetype file)"
    and "0 < fileSize_limit ue" and "fileSize_limit ue \<le> int (file_size file)"
  shows "with_upload ue (Some file) handler req w =
           (Response 400 (Message ''File too large. Maximum size is 5MB.''), w)"
  using assms by (simp add: with_upload_def uploadSingle_def fileFilter_def handleUploadError_def)

lemma with_upload_not_image:
  assumes "fieldname file = ''coverImage''" and "\<not> prefix ''image/'' (mimetype file)"
  shows "with_upload ue (Some file) handler req w =
           (Response 400 (Message ''Only image files (JPEG, PNG, GIF, WebP) are allowed.''), w)"
  using assms by (simp add: with_upload_def uploadSingle_def fileFilter_def handleUploadError_def)

text \<open>
  Claim C7, as the code implements it. For a file sent under the cover field of a create
  or an update request: an image that reaches or exceeds a positive configured ceiling is
  rejected with the file-too-large error (a 400 with the message
  \<open>File too large. Maximum size is 5MB.\<close>); a file whose declared type is not an image is
  rejected, whatever its size, with the not-an-image error (a 400 with the message
  \<open>Only image files ... are allowed.\<close>); in both cases the handler does not run and the
  world is unchanged: no book is created and no file is added to the uploads directory.
  Without a configured ceiling the ceiling is 5 MiB.
\<close>

theorem upload_rejections:
  assumes "fieldname file = ''coverImage''"
  shows "(prefix ''image/'' (mimetype file) \<and> 0 < fileSize_limit ue
            \<and> fileSize_limit ue \<le> int (file_size file) \<longrightarrow>
            route_post_book ue e (Some file) req w
              = (Response 400 (Message ''File too large. Maximum size is 5MB.''), w)
          \<and> route_put_book ue e (Some file) req w
              = (Response 400 (Message ''File too large. Maximum size is 5MB.''), w))
       \<and> (\<not> prefix ''image/'' (mimetype file) \<longrightarrow>
            route_post_book ue e (Some file) req w
              = (Response 400 (Message ''Only image files (JPEG, PNG, GIF, WebP) are allowed.''), w)
          \<and> route_put_book ue e (Some file) req w
              = (Response 400 (Message ''Only image files (JPEG, PNG, GIF, WebP) are allowed.''), w))
       \<and> (MAX_FILE_SIZE ue = None \<longrightarrow> fileSize_limit ue = 5 * 1024 * 1024)"
  using assms
  by (simp add: route_post_book_def route_put_book_def with_upload_too_large
      with_upload_not_image fileSize_limit_def)

theorem upload_rejections_witness:
  "fieldname big_image = ''coverImage'' \<and> prefix ''image/'' (mimetype big_image)
   \<and> 0 < fileSize_limit default_upload_env
   \<and> fileSize_limit default_upload_env \<le> int (file_size big_image)
   \<and> route_post_book default_upload_env quiet_env (Some big_image) (upload_request (dune_fields ''Read'')) (one_book_world ''Read'')
       = (Response 400 (Message ''File too large. Maximum size is 5MB.''), one_book_world ''Read'')
   \<and> fieldname (big_text\<lparr>file_size := 10\<rparr>) = ''coverImage''
   \<and> \<not> prefix ''image/'' (mimetype (big_text\<lparr>file_size := 10\<rparr>))
   \<and> route_post_book default_upload_env quiet_env (Some (big_text\<lparr>file_size := 10\<rparr>)) (upload_request (dune_fields ''Read'')) (one_book_world ''Read'')
       = (Response 400 (Message ''Only image files (JPEG, PNG, GIF, WebP) are allowed.''), one_book_world ''Read'')
   \<and> fileSize_limit default_upload_env = 5242880"
proof -
  have a: "fieldname big_image = ''coverImage''" "prefix ''image/'' (mimetype big_image)"
    "0 < fileSize_limit default_upload_env"
    "fileSize_limit default_upload_env \<le> int (file_size big_image)"
    by (simp_all add: big_image_def default_upload_env_def fileSize_limit_def)
  have b: "fieldname (big_text\<lparr>file_size := 10\<rparr>) = ''coverImage''"
    "\<not> prefix ''image/'' (mimetype (big_text\<lparr>file_size := 10\<rparr>))"
    by (simp_all add: big_text_def)
  have c: "MAX_FILE_SIZE default_upload_env = None"
    by (simp add: default_upload_env_def)
  from upload_rejections[OF a(1), of default_upload_env quiet_env "upload_request (dune_fields ''Read'')" "one_book_world ''Read''"]
    upload_rejections[OF b(1), of default_upload_env quiet_env "upload_request (dune_fields ''Read'')" "one_book_world ''Read''"]
    a b c
  show ?thesis by simp
qed

text \<open>
  Claim C7 as stated, that every file above the configured ceiling is rejected as too
  large, fails twice: the type of the file is checked before anything is stored or
  counted, so an 8 MiB text file is rejected as not an image; and a negative ceiling is
  never reached, so with the ceiling configured as -5 an 8 MiB image is accepted and the
  book is created.
\<close>

theorem big_text_is_not_too_large:
  "0 < fileSize_limit default_upload_env
   \<and> fileSize_limit default_upload_env < int (file_size big_text)
   \<and> route_post_book default_upload_env quiet_env (Some big_text) (upload_request (dune_fields ''Read'')) (one_book_world ''Read'')
       = (Response 400 (Message ''Only image files (JPEG, PNG, GIF, WebP) are allowed.''), one_book_world ''Read'')
   \<and> fileSize_limit negative_ceiling_env = - 5
   \<and> fileSize_limit negative_ceiling_env < int (file_size big_image)
   \<and> status_code (fst (route_post_book negative_ceiling_env quiet_env (Some big_image)
        (upload_request (dune_fields ''Read'')) (one_book_world ''Read''))) = 201"
proof -
  have 1: "0 < fileSize_limit default_upload_env
   \<and> fileSize_limit default_upload_env < int (file_size big_text)
   \<and> route_post_book default_upload_env quiet_env (Some big_text) (upload_request (dune_fields ''Read'')) (one_book_world ''Read'')
       = (Response 400 (Message ''Only image files (JPEG, PNG, GIF, WebP) are allowed.''), one_book_world ''Read'')"
    by (simp add: big_text_def default_upload_env_def fileSize_limit_def route_post_book_def
      with_upload_def uploadSingle_def fileFilter_def handleUploadError_def)
  have 2: "fileSize_limit negative_ceiling_env = - 5
   \<and> fileSize_limit negative_ceiling_env < int (file_size big_image)"
    by (simp add: negative_ceiling_env_def fileSize_limit_def big_image_def)
  have up: "uploadSingle negative_ceiling_env (Some big_image) (one_book_world ''Read'')
     = Inr (Some stored_name, (one_book_world ''Read'')\<lparr>files := {stored_name}\<rparr>)"
    by (simp add: uploadSingle_def big_image_def negative_ceiling_env_def fileFilter_def
        fileSize_limit_def storage_filename_def extname_def stored_name_def one_book_world_def)
  have r: "route_post_book negative_ceiling_env quiet_env (Some big_image)
        (upload_request (dune_fields ''Read'')) (one_book_world ''Read'')
     = post_book quiet_env ((upload_request (dune_fields ''Read''))\<lparr>req_file := Some stored_name\<rparr>)
         ((one_book_world ''Read'')\<lparr>files := {stored_name}\<rparr>)"
    using up by (simp add: route_post_book_def with_upload_def optimizeImage_def)
  have 3: "status_code (fst (post_book quiet_env ((upload_request (dune_fields ''Read''))\<lparr>req_file := Some stored_name\<rparr>)
         ((one_book_world ''Read'')\<lparr>files := {stored_name}\<rparr>))) = 201"
    by code_simp
  from 1 2 3 show ?thesis unfolding r by simp
qed

section \<open>Search\<close>











section \<open>External search\<close>

text \<open>
  Claim C9. The external search answers an absent or empty query with the bad-request
  error (400 \<open>Query is required\<close>) and sends nothing; with a query but no configured
  key it answers with the not-configured error (500 \<open>Google Books API not configured\<close>)
  and sends nothing; only with both does it send the lookup, exactly one, and answer with
  the mapped items (an empty list when the answer has no items), or with an error when
  the lookup itself fails.
\<close>

theorem search_external_gate:
  "((query = None \<or> query = Some []) \<longrightarrow>
      get_search_external xe query = (Response 400 (Message ''Query is required''), []))
   \<and> (query = Some q \<and> q \<noteq> [] \<and> (GOOGLE_BOOKS_API_KEY xe = None \<or> GOOGLE_BOOKS_API_KEY xe = Some []) \<longrightarrow>
      get_search_external xe query = (Response 500 (Message ''Google Books API not configured''), []))
   \<and> (query = Some q \<and> q \<noteq> [] \<and> GOOGLE_BOOKS_API_KEY xe = Some k \<and> k \<noteq> [] \<longrightarrow>
      snd (get_search_external xe query) = [(q, k)]
      \<and> fst (get_search_external xe query) =
          (case upstream xe (q, k) of
             None \<Rightarrow> Response 500 (Message ''Error searching external book database'')
           | Some None \<Rightarrow> Response 200 (ExternalBooks [])
           | Some (Some items) \<Rightarrow> Response 200 (ExternalBooks (map normalize_volume items))))"
  by (auto simp: get_search_external_def split: option.splits)

theorem search_external_gate_witness:
  "get_search_external \<lparr>GOOGLE_BOOKS_API_KEY = None, upstream = catalogue\<rparr> (Some [])
     = (Response 400 (Message ''Query is required''), [])
   \<and> get_search_external \<lparr>GOOGLE_BOOKS_API_KEY = None, upstream = catalogue\<rparr> (Some ''dune'')
     = (Response 500 (Message ''Google Books API not configured''), [])
   \<and> get_search_external \<lparr>GOOGLE_BOOKS_API_KEY = Some ''k1'', upstream = catalogue\<rparr> (Some ''dune'')
     = (Response 200 (ExternalBooks
          [\<lparr>x_title = ''Dune'', x_author = ''Frank Herbert'', x_genre = Some [], x_description = [],
            x_isbn = Some ''9780441013593'', x_publishedDate = ''1965'', x_pageCount = None,
            x_coverImage = None, x_language = ''en''\<rparr>]),
        [(''dune'', ''k1'')])"
proof -
  have n: "map normalize_volume (the (the (catalogue (''dune'', ''k1'')))) =
     [\<lparr>x_title = ''Dune'', x_author = ''Frank Herbert'', x_genre = Some [], x_description = [],
            x_isbn = Some ''9780441013593'', x_publishedDate = ''1965'', x_pageCount = None,
            x_coverImage = None, x_language = ''en''\<rparr>]"
    by code_simp
  have c: "catalogue (''dune'', ''k1'') = Some (Some (the (the (catalogue (''dune'', ''k1'')))))"
    by (simp add: catalogue_def)
  from search_external_gate[of "Some []" "\<lparr>GOOGLE_BOOKS_API_KEY = None, upstream = catalogue\<rparr>" "[]" "[]"]
  have 1: "get_search_external \<lparr>GOOGLE_BOOKS_API_KEY = None, upstream = catalogue\<rparr> (Some [])
     = (Response 400 (Message ''Query is required''), [])" by simp
  from search_external_gate[of "Some ''dune''" "\<lparr>GOOGLE_BOOKS_API_KEY = None, upstream = catalogue\<rparr>" "''dune''" "[]"]
  have 2: "get_search_external \<lparr>GOOGLE_BOOKS_API_KEY = None, upstream = catalogue\<rparr> (Some ''dune'')
     = (Response 500 (Message ''Google Books API not configured''), [])" by simp
  from search_external_gate[of "Some ''dune''" "\<lparr>GOOGLE_BOOKS_API_KEY = Some ''k1'', upstream = catalogue\<rparr>" "''dune''" "''k1''"]
  have 3: "snd (get_search_external \<lparr>GOOGLE_BOOKS_API_KEY = Some ''k1'', upstream = catalogue\<rparr> (Some ''dune'')) = [(''dune'', ''k1'')]
     \<and> fst (get_search_external \<lparr>GOOGLE_BOOKS_API_KEY = Some ''k1'', upstream = catalogue\<rparr> (Some ''dune'')) =
          (case catalogue (''dune'', ''k1'') of
             None \<Rightarrow> Response 500 (Message ''Error searching external book database'')
           | Some None \<Rightarrow> Response 200 (ExternalBooks [])
           | Some (Some items) \<Rightarrow> Response 200 (ExternalBooks (map normalize_volume items)))"
    by simp
  from 3 c n have 4: "get_search_external \<lparr>GOOGLE_BOOKS_API_KEY = Some ''k1'', upstream = catalogue\<rparr> (Some ''dune'')
     = (Response 200 (ExternalBooks
          [\<lparr>x_title = ''Dune'', x_author = ''Frank Herbert'', x_genre = Some [], x_description = [],
            x_isbn = Some ''9780441013593'', x_publishedDate = ''1965'', x_pageCount = None,
            x_coverImage = None, x_language = ''en''\<rparr>]),
        [(''dune'', ''k1'')])"
    by (metis (no_types, lifting) option.simps(5) prod.collapse)
  from 1 2 4 show ?thesis by simp
qed


section \<open>The stored status stays one of the three literals\<close>

text \<open>
  The premise of the sum identity of the snapshot: create, update and delete through the
  validating router keep every stored status among \<open>To Read\<close>, \<open>Reading\<close> and \<open>Read\<close>.
\<close>

lemma apply_set_status:
  "f_status v = Some s \<Longrightarrow> status (apply_set v c old) = s"
  by (simp add: apply_set_def)

lemma set_replace_first: "set (replace_first P y xs) \<subseteq> insert y (set xs)"
  by (induction xs) auto

lemma set_remove_first: "set (remove_first P xs) \<subseteq> set xs"
  by (induction xs) auto

lemma post_book_keeps_status_enum:
  assumes "\<forall>b \<in> set (books w). status b \<in> set status_values"
  shows "\<forall>b \<in> set (books (snd (post_book e req w))). status b \<in> set status_values"
proof (cases "post_book e req w")
  case (Pair r w')
  show ?thesis
  proof (cases "\<exists>v bk. bookValidationSchema (req_body req) = Inr v
      \<and> Book_save e v (map_option upload_path (req_file req)) (req_user req) w = Inr (bk, w')")
    case True
    then obtain v bk where v: "bookValidationSchema (req_body req) = Inr v"
      and sv: "Book_save e v (map_option upload_path (req_file req)) (req_user req) w = Inr (bk, w')"
      by auto
    from bookValidationSchema_status[OF v] obtain s where
      s: "f_status v = Some s" "s \<in> set status_values" by auto
    from Book_save_doc[OF sv] s have "status bk \<in> set status_values"
      by (simp add: new_Book_def)
    moreover from Book_save_world[OF sv] have "books w' = books w @ [bk]" by simp
    ultimately show ?thesis using assms Pair by auto
  next
    case False
    with Pair have "books w' = books w"
      by (auto simp: post_book_def Let_def split: sum.splits store_error.splits prod.splits)
    with assms Pair show ?thesis by simp
  qed
qed

lemma Book_findOneAndUpdate_status_enum:
  assumes "Book_findOneAndUpdate e i u v c rv w = Inr (r, w')"
    and "f_status v = Some s" and "s \<in> set status_values"
    and "\<forall>b \<in> set (books w). status b \<in> set status_values"
  shows "\<forall>b \<in> set (books w'). status b \<in> set status_values"
proof -
  from assms(1) have "books w' = books w \<or> (\<exists>old. books w' =
      replace_first (\<lambda>b. bid b = i \<and> user b = u) (apply_set v c old) (books w))"
    by (auto simp: Book_findOneAndUpdate_def Let_def bookSchema_pre_def
        split: if_splits option.splits)
  then show ?thesis
  proof
    assume "books w' = books w"
    with assms(4) show ?thesis by simp
  next
    assume "\<exists>old. books w' = replace_first (\<lambda>b. bid b = i \<and> user b = u) (apply_set v c old) (books w)"
    then obtain old where
      b: "books w' = replace_first (\<lambda>b. bid b = i \<and> user b = u) (apply_set v c old) (books w)"
      by auto
    have "set (books w') \<subseteq> insert (apply_set v c old) (set (books w))"
      unfolding b by (rule set_replace_first)
    moreover have "status (apply_set v c old) \<in> set status_values"
      using assms(2,3) by (simp add: apply_set_status)
    ultimately show ?thesis using assms(4) by auto
  qed
qed

lemma put_book_keeps_status_enum:
  assumes "\<forall>b \<in> set (books w). status b \<in> set status_values"
  shows "\<forall>b \<in> set (books (snd (put_book e req w))). status b \<in> set status_values"
proof (cases "bookValidationSchema (req_body req)")
  case (Inl err)
  with assms show ?thesis by (simp add: put_book_def)
next
  case (Inr v)
  from bookValidationSchema_status[OF Inr] obtain s where
    s: "f_status v = Some s" "s \<in> set status_values" by auto
  show ?thesis
  proof (cases "Book_findOne w (req_id req) (req_user req)")
    case None
    with Inr assms show ?thesis by (simp add: put_book_def)
  next
    case (Some existingBook)
    let ?w1 = "case req_file req of Some filename \<Rightarrow> delete_cover existingBook w | None \<Rightarrow> w"
    let ?c = "map_option (\<lambda>filename. Some (upload_path filename)) (req_file req)"
    have w1: "\<forall>b \<in> set (books ?w1). status b \<in> set status_values"
      using assms by (simp split: option.splits)
    show ?thesis
    proof (cases "Book_findOneAndUpdate e (req_id req) (req_user req) v ?c True ?w1")
      case (Inl err)
      with Inr Some w1 show ?thesis
        by (simp add: put_book_def Let_def split: store_error.splits)
    next
      case (Inr res)
      obtain r w2 where res: "res = (r, w2)" by (cases res)
      from Book_findOneAndUpdate_status_enum[OF Inr[unfolded res] s w1]
      have "\<forall>b \<in> set (books w2). status b \<in> set status_values" .
      with \<open>bookValidationSchema (req_body req) = Inr v\<close> Some Inr res show ?thesis
        by (simp add: put_book_def Let_def)
    qed
  qed
qed

lemma delete_book_keeps_status_enum:
  assumes "\<forall>b \<in> set (books w). status b \<in> set status_values"
  shows "\<forall>b \<in> set (books (snd (delete_book e req w))). status b \<in> set status_values"
proof -
  have "set (books (snd (delete_book e req w))) \<subseteq> set (books w)"
    using set_remove_first[of "\<lambda>b. bid b = req_id req \<and> user b = req_user req" "books w"]
    by (auto simp: delete_book_def Book_findOneAndDelete_def Let_def split: option.splits)
  with assms show ?thesis by auto
qed

section \<open>The reading duration\<close>












end
